theory Spec2Isabelle
  imports Main "HOL-Library.Word"
begin

unbundle bit_operations_syntax

section \<open>Machine types of \<^verbatim>\<open>pfastcgi.hpp\<close>\<close>

text \<open>
  \<^verbatim>\<open>using Byte = unsigned char;\<close> is an 8-bit word. The source's \<^verbatim>\<open>int\<close> is a 32-bit
  two's-complement word, read by \<open>sint\<close>. The conversions the source applies silently are
  written out:
  \<^item> \<^verbatim>\<open>int\<close> to \<^verbatim>\<open>Byte\<close> (a member initialiser or an assignment) keeps the low 8 bits:
    \<open>ucast\<close>;
  \<^item> \<^verbatim>\<open>Byte\<close> to \<^verbatim>\<open>int\<close> (integral promotion in \<^verbatim>\<open>b << 8\<close> and \<^verbatim>\<open>a + b\<close>) zero-extends:
    \<open>ucast\<close>;
  \<^item> \<^verbatim>\<open>x >> n\<close> on an \<^verbatim>\<open>int\<close> is the arithmetic shift: \<open>signed_drop_bit n x\<close>;
  \<^item> \<^verbatim>\<open>x << n\<close> is \<open>push_bit n x\<close>;
  \<^item> \<^verbatim>\<open>bool\<close> to \<^verbatim>\<open>Byte\<close> is \<open>of_bool\<close> (true is 1, false is 0).
\<close>

type_synonym Byte = "8 word"
type_synonym cint = "32 word"

definition kFcgiVersion :: cint where
  "kFcgiVersion = 1"

definition kFcgiKeepAlive :: cint where
  "kFcgiKeepAlive = 1"

datatype FcgiType =
    kTypeBegin | kTypeAbort | kTypeEnd | kTypeParams | kTypeStdin | kTypeStdout
  | kTypeStderr | kTypeData | kTypeGetValues | kTypeValueResult | kTypeUnknown

text \<open>The enumerator values, as the \<^verbatim>\<open>enum FcgiType\<close> declaration gives them.\<close>

fun FcgiType_val :: "FcgiType \<Rightarrow> cint" where
  "FcgiType_val kTypeBegin = 1"
| "FcgiType_val kTypeAbort = 2"
| "FcgiType_val kTypeEnd = 3"
| "FcgiType_val kTypeParams = 4"
| "FcgiType_val kTypeStdin = 5"
| "FcgiType_val kTypeStdout = 6"
| "FcgiType_val kTypeStderr = 7"
| "FcgiType_val kTypeData = 8"
| "FcgiType_val kTypeGetValues = 9"
| "FcgiType_val kTypeValueResult = 10"
| "FcgiType_val kTypeUnknown = 11"

datatype FcgiRole = kRoleResponder | kRoleAuthorizer | kRoleFilter

fun FcgiRole_val :: "FcgiRole \<Rightarrow> cint" where
  "FcgiRole_val kRoleResponder = 1"
| "FcgiRole_val kRoleAuthorizer = 2"
| "FcgiRole_val kRoleFilter = 3"

section \<open>\<^verbatim>\<open>struct FcgiHeader\<close>\<close>

record FcgiHeader =
  version :: Byte
  type :: Byte
  request_id1 :: Byte
  request_id0 :: Byte
  content_length1 :: Byte
  content_length0 :: Byte
  padding_length :: Byte
  hreserved :: Byte

text \<open>
  \<^verbatim>\<open>FcgiHeader(FcgiType type, int content_length, int request_id = 1, int padding_length = 0)\<close>:
  every member has an initialiser, so the result does not depend on the storage the
  object is built in. The field \<^verbatim>\<open>reserved\<close> is \<open>hreserved\<close> here, since
  \<^verbatim>\<open>FcgiRequestBeginBody\<close> has a member of the same name.
\<close>

definition new_FcgiHeader :: "FcgiType \<Rightarrow> cint \<Rightarrow> cint \<Rightarrow> cint \<Rightarrow> FcgiHeader" where
  "new_FcgiHeader t clen rid plen =
     \<lparr> version = ucast kFcgiVersion,
       type = ucast (FcgiType_val t),
       request_id1 = ucast (signed_drop_bit 8 rid AND 0xff),
       request_id0 = ucast (rid AND 0xff),
       content_length1 = ucast (signed_drop_bit 8 clen AND 0xff),
       content_length0 = ucast (clen AND 0xff),
       padding_length = ucast plen,
       hreserved = 0 \<rparr>"

text \<open>The call forms that leave the defaulted arguments out.\<close>

definition new_FcgiHeader3 :: "FcgiType \<Rightarrow> cint \<Rightarrow> cint \<Rightarrow> FcgiHeader" where
  "new_FcgiHeader3 t clen rid = new_FcgiHeader t clen rid 0"

definition new_FcgiHeader2 :: "FcgiType \<Rightarrow> cint \<Rightarrow> FcgiHeader" where
  "new_FcgiHeader2 t clen = new_FcgiHeader t clen 1 0"

definition request_id :: "FcgiHeader \<Rightarrow> cint" where
  "request_id h = push_bit 8 (ucast (request_id1 h)) + ucast (request_id0 h)"

definition content_length :: "FcgiHeader \<Rightarrow> cint" where
  "content_length h = push_bit 8 (ucast (content_length1 h)) + ucast (content_length0 h)"

definition set_request_id :: "FcgiHeader \<Rightarrow> cint \<Rightarrow> FcgiHeader" where
  "set_request_id h rid =
     h\<lparr> request_id1 := ucast (signed_drop_bit 8 rid AND 0xff),
        request_id0 := ucast (rid AND 0xff) \<rparr>"

definition set_content_length :: "FcgiHeader \<Rightarrow> cint \<Rightarrow> FcgiHeader" where
  "set_content_length h clen =
     h\<lparr> content_length1 := ucast (signed_drop_bit 8 clen AND 0xff),
        content_length0 := ucast (clen AND 0xff) \<rparr>"

text \<open>
  The bytes of the object in memory order, which is what \<^verbatim>\<open>doWrite(&header, sizeof(header))\<close>
  hands to \<^verbatim>\<open>send\<close>: eight \<^verbatim>\<open>unsigned char\<close> members in declaration order, no padding.
\<close>

definition FcgiHeader_bytes :: "FcgiHeader \<Rightarrow> Byte list" where
  "FcgiHeader_bytes h =
     [version h, type h, request_id1 h, request_id0 h,
      content_length1 h, content_length0 h, padding_length h, hreserved h]"

section \<open>\<^verbatim>\<open>struct FcgiParams\<close>\<close>

record FcgiParams =
  name_length3 :: Byte
  name_length2 :: Byte
  name_length1 :: Byte
  name_length0 :: Byte
  value_length3 :: Byte
  value_length2 :: Byte
  value_length1 :: Byte
  value_length0 :: Byte

definition new_FcgiParams :: "cint \<Rightarrow> cint \<Rightarrow> FcgiParams" where
  "new_FcgiParams nlen vlen =
     \<lparr> name_length3 = ucast (signed_drop_bit 24 nlen OR 0x80),
       name_length2 = ucast (signed_drop_bit 16 nlen),
       name_length1 = ucast (signed_drop_bit 8 nlen),
       name_length0 = ucast nlen,
       value_length3 = ucast (signed_drop_bit 24 vlen OR 0x80),
       value_length2 = ucast (signed_drop_bit 16 vlen),
       value_length1 = ucast (signed_drop_bit 8 vlen),
       value_length0 = ucast vlen \<rparr>"

definition set_name_length :: "FcgiParams \<Rightarrow> cint \<Rightarrow> FcgiParams" where
  "set_name_length p nlen =
     p\<lparr> name_length3 := ucast (signed_drop_bit 24 nlen OR 0x80),
        name_length2 := ucast (signed_drop_bit 16 nlen),
        name_length1 := ucast (signed_drop_bit 8 nlen),
        name_length0 := ucast nlen \<rparr>"

definition FcgiParams_bytes :: "FcgiParams \<Rightarrow> Byte list" where
  "FcgiParams_bytes p =
     [name_length3 p, name_length2 p, name_length1 p, name_length0 p,
      value_length3 p, value_length2 p, value_length1 p, value_length0 p]"

section \<open>\<^verbatim>\<open>struct FcgiRequestBeginBody\<close>\<close>

text \<open>\<^verbatim>\<open>Byte reserved[5]\<close>, an array of fixed size, is a 5-tuple.\<close>

record FcgiRequestBeginBody =
  role1 :: Byte
  role0 :: Byte
  flags :: Byte
  reserved :: "Byte \<times> Byte \<times> Byte \<times> Byte \<times> Byte"

text \<open>
  \<^verbatim>\<open>FcgiRequestBeginBody(int role, bool keep_alive)
      : role1((role >> 8) & 0xff), role0(role & 0xff), flags(keep_alive) {}\<close>

  The initialiser list names three of the four members and the body is empty: \<^verbatim>\<open>reserved\<close>
  has no initialiser (and no default member initialiser), so it is default-initialised,
  which for an array of \<^verbatim>\<open>unsigned char\<close> writes nothing. The object keeps, in those five
  bytes, what its storage held before. The model therefore builds the object in a given
  storage \<open>st\<close> and updates the three members the constructor writes.
\<close>

definition new_FcgiRequestBeginBody ::
    "FcgiRequestBeginBody \<Rightarrow> cint \<Rightarrow> bool \<Rightarrow> FcgiRequestBeginBody" where
  "new_FcgiRequestBeginBody st r ka =
     st\<lparr> role1 := ucast (signed_drop_bit 8 r AND 0xff),
         role0 := ucast (r AND 0xff),
         flags := of_bool ka \<rparr>"

definition role :: "FcgiRequestBeginBody \<Rightarrow> cint" where
  "role b = push_bit 8 (ucast (role1 b)) + ucast (role0 b)"

definition keep_alive :: "FcgiRequestBeginBody \<Rightarrow> bool" where
  "keep_alive b = (ucast (flags b) AND kFcgiKeepAlive \<noteq> 0)"

definition set_keep_alive :: "FcgiRequestBeginBody \<Rightarrow> bool \<Rightarrow> FcgiRequestBeginBody" where
  "set_keep_alive b ka = b\<lparr> flags := ucast (if ka then kFcgiKeepAlive else 0) \<rparr>"

definition set_role :: "FcgiRequestBeginBody \<Rightarrow> FcgiRole \<Rightarrow> FcgiRequestBeginBody" where
  "set_role b r =
     b\<lparr> role1 := ucast (signed_drop_bit 8 (FcgiRole_val r) AND 0xff),
        role0 := ucast (FcgiRole_val r AND 0xff) \<rparr>"

definition FcgiRequestBeginBody_bytes :: "FcgiRequestBeginBody \<Rightarrow> Byte list" where
  "FcgiRequestBeginBody_bytes b =
     (case reserved b of (r0, r1, r2, r3, r4) \<Rightarrow>
        [role1 b, role0 b, flags b, r0, r1, r2, r3, r4])"

text \<open>\<^verbatim>\<open>sizeof(FcgiRequestBeginBody)\<close>: eight members of one byte each.\<close>

definition sizeof_FcgiRequestBeginBody :: cint where
  "sizeof_FcgiRequestBeginBody = 8"

text \<open>\<^verbatim>\<open>struct FcgiRequestBegin { FcgiHeader header; FcgiRequestBeginBody body; };\<close>\<close>

record FcgiRequestBegin =
  header :: FcgiHeader
  body :: FcgiRequestBeginBody

definition FcgiRequestBegin_bytes :: "FcgiRequestBegin \<Rightarrow> Byte list" where
  "FcgiRequestBegin_bytes msg =
     FcgiHeader_bytes (header msg) @ FcgiRequestBeginBody_bytes (body msg)"

section \<open>The operating system\<close>

text \<open>
  The library and system calls the source makes are not part of the repository. Each call
  is an event; the operating system is a parameter \<open>os\<close> that gives the \<^verbatim>\<open>int\<close> a call
  returns, from the events so far and the call. The trace records every call together with
  what it returned, so that how often and with which arguments the program calls
  \<^verbatim>\<open>close\<close> or \<^verbatim>\<open>send\<close> is a property of the trace.

  \<open>Connect fd addr port\<close> stands for \<^verbatim>\<open>connect(fd, &sktaddr, sizeof(sockaddr_in))\<close>: of the
  \<^verbatim>\<open>sockaddr_in\<close> it keeps the address text \<^verbatim>\<open>inet_pton\<close> parsed and the 16 bits
  \<^verbatim>\<open>htons(port)\<close> keeps of the port. \<open>Send fd buf flags\<close> stands for
  \<^verbatim>\<open>send(fd, buf, length, flags)\<close>, with \<open>buf\<close> the \<^verbatim>\<open>length\<close> bytes at the pointer.
  A \<open>string\<close> holds the characters of a \<^verbatim>\<open>const char *\<close> argument up to its terminating
  NUL, which is not part of it.
\<close>

datatype domain = AF_INET | AF_UNIX

datatype syscall =
    Close cint
  | Inet_pton string
  | Socket domain
  | Connect cint string "16 word"
  | Send cint "Byte list" cint

type_synonym trace = "(syscall \<times> cint) list"
type_synonym OS = "trace \<Rightarrow> syscall \<Rightarrow> cint"

definition call :: "OS \<Rightarrow> syscall \<Rightarrow> trace \<Rightarrow> cint \<times> trace" where
  "call os c tr = (os tr c, tr @ [(c, os tr c)])"

section \<open>\<^verbatim>\<open>class FcgiManager\<close>\<close>

record FcgiManager =
  fcgifd_member :: cint

text \<open>
  The private member \<^verbatim>\<open>fcgifd_\<close> is the field \<open>fcgifd_member\<close> (a name cannot end in an
  underscore here), with its default member initialiser \<^verbatim>\<open>int fcgifd_ = -1;\<close>.
\<close>

definition new_FcgiManager :: FcgiManager where
  "new_FcgiManager = \<lparr> fcgifd_member = - 1 \<rparr>"

definition fcgifd :: "FcgiManager \<Rightarrow> cint" where
  "fcgifd m = fcgifd_member m"

definition set_fcgifd :: "FcgiManager \<Rightarrow> cint \<Rightarrow> FcgiManager" where
  "set_fcgifd m fd = m\<lparr> fcgifd_member := fd \<rparr>"

text \<open>
  \<^verbatim>\<open>inline void closeSocket() { if (fcgifd_ != -1) close(fcgifd_); }\<close>:
  the member \<^verbatim>\<open>fcgifd_\<close> is not assigned, the object is returned as it was.
\<close>

definition closeSocket :: "OS \<Rightarrow> FcgiManager \<Rightarrow> trace \<Rightarrow> FcgiManager \<times> trace" where
  "closeSocket os m tr =
     (if fcgifd_member m \<noteq> - 1 then (m, snd (call os (Close (fcgifd_member m)) tr))
      else (m, tr))"

text \<open>\<^verbatim>\<open>virtual ~FcgiManager() { closeSocket(); }\<close>: the object is gone, the trace stays.\<close>

definition delete_FcgiManager :: "OS \<Rightarrow> FcgiManager \<Rightarrow> trace \<Rightarrow> trace" where
  "delete_FcgiManager os m tr = snd (closeSocket os m tr)"

definition doWrite :: "OS \<Rightarrow> FcgiManager \<Rightarrow> Byte list \<Rightarrow> cint \<Rightarrow> trace \<Rightarrow> cint \<times> trace" where
  "doWrite os m buf fl tr = call os (Send (fcgifd_member m) buf fl) tr"

text \<open>
  \<^verbatim>\<open>startParams\<close>: the local \<^verbatim>\<open>msg\<close> is built on the stack; \<open>st\<close> is what the stack held
  where \<^verbatim>\<open>msg.body\<close> is placed. \<^verbatim>\<open>doWrite(&msg, sizeof(msg))\<close> sends all bytes of \<^verbatim>\<open>msg\<close>,
  with the defaulted \<^verbatim>\<open>flags = 0\<close>.
\<close>

definition startParams ::
    "OS \<Rightarrow> FcgiManager \<Rightarrow> FcgiRequestBeginBody \<Rightarrow> FcgiRole \<Rightarrow> bool \<Rightarrow> cint \<Rightarrow> trace
      \<Rightarrow> cint \<times> trace" where
  "startParams os m st r ka rid tr =
     (let msg = \<lparr> header = new_FcgiHeader3 kTypeBegin sizeof_FcgiRequestBeginBody rid,
                  body = new_FcgiRequestBeginBody st (FcgiRole_val r) ka \<rparr>
      in doWrite os m (FcgiRequestBegin_bytes msg) 0 tr)"

definition endParams :: "OS \<Rightarrow> FcgiManager \<Rightarrow> cint \<Rightarrow> trace \<Rightarrow> cint \<times> trace" where
  "endParams os m requestID tr =
     (let h = new_FcgiHeader3 kTypeParams 0 requestID
      in doWrite os m (FcgiHeader_bytes h) 0 tr)"

section \<open>\<^verbatim>\<open>class FcgiManagerINET\<close>\<close>

text \<open>\<^verbatim>\<open>assert(port >= 0)\<close> aborts the program when it fails: the error of the model.\<close>

datatype error = AssertionFailed

definition start_INET ::
    "OS \<Rightarrow> FcgiManager \<Rightarrow> string \<Rightarrow> cint \<Rightarrow> trace \<Rightarrow> error + (cint \<times> FcgiManager \<times> trace)" where
  "start_INET os m addr port tr =
     (if sint port < 0 then Inl AssertionFailed
      else
        let (m1, tr1) = closeSocket os m tr;
            (ok, tr2) = call os (Inet_pton addr) tr1
        in if sint ok \<le> 0 then Inr (- 1, m1, tr2)
           else
             let (fd, tr3) = call os (Socket AF_INET) tr2;
                 m2 = set_fcgifd m1 fd;
                 (res, tr4) = call os (Connect fd addr (ucast port)) tr3
             in Inr (res, m2, tr4))"

text \<open>\<^verbatim>\<open>FcgiManagerINET(const char *addr, const int port) { start(addr, port); }\<close>\<close>

definition new_FcgiManagerINET ::
    "OS \<Rightarrow> string \<Rightarrow> cint \<Rightarrow> trace \<Rightarrow> error + (FcgiManager \<times> trace)" where
  "new_FcgiManagerINET os addr port tr =
     (case start_INET os new_FcgiManager addr port tr of
        Inl e \<Rightarrow> Inl e
      | Inr (res, m, tr') \<Rightarrow> Inr (m, tr'))"

section \<open>Descriptors and addresses\<close>

text \<open>
  A trace closes only open descriptors when every \<open>Close fd\<close> in it comes while \<open>fd\<close> is
  open: returned by an earlier \<open>Socket\<close> call (a negative return is a failure, not a
  descriptor) and not closed since. \<open>fds\<close> are the descriptors open at the start.
\<close>

fun closes_open_only :: "cint list \<Rightarrow> trace \<Rightarrow> bool" where
  "closes_open_only fds [] = True"
| "closes_open_only fds ((Close fd, r) # tr) =
     (fd \<in> set fds \<and> closes_open_only (removeAll fd fds) tr)"
| "closes_open_only fds ((Socket d, r) # tr) =
     closes_open_only (if 0 \<le> sint r then r # fds else fds) tr"
| "closes_open_only fds (e # tr) = closes_open_only fds tr"

fun open_fds :: "cint list \<Rightarrow> trace \<Rightarrow> cint list" where
  "open_fds fds [] = fds"
| "open_fds fds ((Close fd, r) # tr) = open_fds (removeAll fd fds) tr"
| "open_fds fds ((Socket d, r) # tr) = open_fds (if 0 \<le> sint r then r # fds else fds) tr"
| "open_fds fds (e # tr) = open_fds fds tr"

text \<open>
  The text form \<^verbatim>\<open>inet_pton(AF_INET, ...)\<close> accepts, after POSIX: \<^verbatim>\<open>ddd.ddd.ddd.ddd\<close>, each
  \<^verbatim>\<open>ddd\<close> a decimal number of one to three digits between 0 and 255.
\<close>

definition is_digit :: "char \<Rightarrow> bool" where
  "is_digit c = (c \<in> set ''0123456789'')"

fun split_on :: "char \<Rightarrow> string \<Rightarrow> string list" where
  "split_on d [] = [[]]"
| "split_on d (c # cs) =
     (if c = d then [] # split_on d cs
      else (case split_on d cs of [] \<Rightarrow> [[c]] | p # ps \<Rightarrow> (c # p) # ps))"

definition decimal :: "string \<Rightarrow> nat" where
  "decimal s = foldl (\<lambda>a c. 10 * a + (of_char c - 48)) 0 s"

definition valid_octet :: "string \<Rightarrow> bool" where
  "valid_octet s = (1 \<le> length s \<and> length s \<le> 3 \<and> list_all is_digit s \<and> decimal s \<le> 255)"

definition valid_dotted_quad :: "string \<Rightarrow> bool" where
  "valid_dotted_quad a =
     (let parts = split_on CHR ''.'' a in length parts = 4 \<and> list_all valid_octet parts)"

text \<open>
  An operating system rejects invalid addresses when \<^verbatim>\<open>inet_pton\<close> returns 0 (not a
  valid address text) or -1 (an error) on every text that is not a dotted quad, whatever
  happened before. Every implementation of POSIX \<^verbatim>\<open>inet_pton\<close> does.
\<close>

definition rejects_invalid :: "OS \<Rightarrow> bool" where
  "rejects_invalid os = (\<forall>tr a. \<not> valid_dotted_quad a \<longrightarrow> sint (os tr (Inet_pton a)) \<le> 0)"

text \<open>
  A concrete operating system to run the model on: \<^verbatim>\<open>socket\<close> returns the lowest
  descriptor from 3 that is not open, \<^verbatim>\<open>close\<close> returns 0 on an open descriptor and -1 on
  any other, \<^verbatim>\<open>inet_pton\<close> returns 1 on a dotted quad and 0 on any other text,
  \<^verbatim>\<open>connect\<close> succeeds and \<^verbatim>\<open>send\<close> takes the whole buffer.
\<close>

fun lowest_free :: "nat \<Rightarrow> cint \<Rightarrow> cint list \<Rightarrow> cint" where
  "lowest_free 0 fd fds = fd"
| "lowest_free (Suc k) fd fds = (if fd \<in> set fds then lowest_free k (fd + 1) fds else fd)"

fun simple_os :: OS where
  "simple_os tr (Close fd) = (if fd \<in> set (open_fds [] tr) then 0 else - 1)"
| "simple_os tr (Inet_pton a) = (if valid_dotted_quad a then 1 else 0)"
| "simple_os tr (Socket d) = lowest_free (length (open_fds [] tr)) 3 (open_fds [] tr)"
| "simple_os tr (Connect fd a p) = 0"
| "simple_os tr (Send fd buf fl) = of_nat (length buf)"

section \<open>A decoder for the long-form length prefix\<close>

text \<open>
  The source has no decoder for \<^verbatim>\<open>FcgiParams\<close> (\<^verbatim>\<open>name_length()\<close> is commented out under a
  TODO). This one is not a translation of source code: it follows the words of claim C10,
  "clearing the forced top bit of the first byte of each 4-byte group and recombining the
  four bytes big-endian", and is what the emitted prefix is compared with.
\<close>

definition decode_long_length :: "Byte \<Rightarrow> Byte \<Rightarrow> Byte \<Rightarrow> Byte \<Rightarrow> cint" where
  "decode_long_length b3 b2 b1 b0 =
     push_bit 24 (ucast (b3 AND 0x7f)) OR push_bit 16 (ucast b2)
       OR push_bit 8 (ucast b1) OR ucast b0"

fun decode_params_prefix :: "Byte list \<Rightarrow> (cint \<times> cint) option" where
  "decode_params_prefix [n3, n2, n1, n0, v3, v2, v1, v0] =
     Some (decode_long_length n3 n2 n1 n0, decode_long_length v3 v2 v1 v0)"
| "decode_params_prefix bs = None"

section \<open>A caller that reconnects\<close>

text \<open>
  The caller
  \<^verbatim>\<open>{ FcgiManagerINET t(a1, port); t.start(a2, port); }\<close>
  on an empty trace: construction (which connects), one explicit \<^verbatim>\<open>start\<close>, then the
  destructor at the end of the block. The result is the trace of all calls made.
\<close>

definition connect_reconnect_destroy :: "OS \<Rightarrow> string \<Rightarrow> string \<Rightarrow> cint \<Rightarrow> error + trace" where
  "connect_reconnect_destroy os a1 a2 port =
     (case new_FcgiManagerINET os a1 port [] of
        Inl e \<Rightarrow> Inl e
      | Inr (m, tr) \<Rightarrow>
          (case start_INET os m a2 port tr of
             Inl e \<Rightarrow> Inl e
           | Inr (res, m', tr') \<Rightarrow> Inr (delete_FcgiManager os m' tr')))"

section \<open>Bit-level facts about the byte split\<close>

lemma and_ff: "(x :: cint) AND 0xff = take_bit 8 x"
  by (simp add: take_bit_eq_mask mask_eq_exp_minus_1)

lemma and_7f: "(b :: Byte) AND 0x7f = take_bit 7 b"
  by (simp add: take_bit_eq_mask mask_eq_exp_minus_1)

lemma bit_128_D: "bit (128 :: 'a::semiring_bit_operations) j \<Longrightarrow> j = 7"
  using bit_exp_iff [where ?'a = 'a, of 7 j] by simp

text \<open>The source adds the two halves; they share no bit, so the sum is the bitwise or.\<close>

lemma hi_lo_add_or:
  "push_bit 8 (ucast (a :: Byte)) + (ucast (b :: Byte) :: cint) = push_bit 8 (ucast a) OR ucast b"
  by (rule disjunctive_add_eq_or) (simp add: bit_eq_iff bit_simps, auto dest: bit_imp_le_length)

lemma split_combine_16:
  "push_bit 8 (ucast (ucast (signed_drop_bit 8 v AND 0xff) :: Byte))
     + ucast (ucast (v AND 0xff) :: Byte) = take_bit 16 (v :: cint)"
  unfolding hi_lo_add_or and_ff
  by (rule bit_word_eqI) (auto simp add: bit_simps)

lemma take_bit_16_ucast: "take_bit 16 (ucast (v :: 16 word) :: cint) = ucast v"
  by (rule bit_word_eqI) (auto simp add: bit_simps dest: bit_imp_le_length)

lemma not_bit31: "0 \<le> sint (v :: cint) \<Longrightarrow> \<not> bit v 31"
  using bit_last_iff [of v] by simp

lemma sint_nonneg_uint:
  assumes "0 \<le> sint (v :: cint)"
  shows "sint v = uint v"
proof -
  have "sint v < 2 ^ 32"
    using sint_less [of v] by simp
  with assms have "take_bit 32 (sint v) = sint v"
    by (simp add: take_bit_int_eq_self)
  then show ?thesis
    using uint_sint [of v] by simp
qed

lemma sint_take_bit_16: "sint (take_bit 16 (v :: cint)) = uint v mod 65536"
proof -
  have "\<not> bit (take_bit 16 v) 31"
    by (simp add: bit_simps)
  then have "0 \<le> sint (take_bit 16 v)"
    using bit_last_iff [of "take_bit 16 v"] by simp
  then have "sint (take_bit 16 v) = uint (take_bit 16 v)"
    by (rule sint_nonneg_uint)
  also have "\<dots> = uint v mod 65536"
    by (simp add: take_bit_eq_mod uint_mod_distrib)
  finally show ?thesis .
qed

lemma gt_65535_neq: "65535 < sint (v :: cint) \<Longrightarrow> take_bit 16 v \<noteq> v"
proof
  assume a: "65535 < sint v" and e: "take_bit 16 v = v"
  have "sint (take_bit 16 v) = uint v mod 65536"
    by (rule sint_take_bit_16)
  then have "sint v < 65536"
    using e by simp
  with a show False by simp
qed

lemma request_id_set: "request_id (set_request_id h v) = take_bit 16 v"
  by (simp add: request_id_def set_request_id_def split_combine_16)

lemma content_length_set: "content_length (set_content_length h v) = take_bit 16 v"
  by (simp add: content_length_def set_content_length_def split_combine_16)

lemma request_id_new: "request_id (new_FcgiHeader t c r p) = take_bit 16 r"
  by (simp add: request_id_def new_FcgiHeader_def split_combine_16)

lemma content_length_new: "content_length (new_FcgiHeader t c r p) = take_bit 16 c"
  by (simp add: content_length_def new_FcgiHeader_def split_combine_16)

text \<open>
  What one stored byte is as a number: the byte taken from \<^verbatim>\<open>v >> n\<close> is the base-256 digit
  of \<open>v\<close> (read unsigned) at that position, and or-ing \<^verbatim>\<open>0x80\<close> into a byte replaces its
  top bit by 1.
\<close>

lemma ucast_sdrop: "n \<le> 24 \<Longrightarrow> (ucast (signed_drop_bit n (v :: cint)) :: Byte) = ucast (drop_bit n v)"
  by (rule bit_word_eqI) (auto simp add: bit_simps)

lemma unat_byte_of_shift:
  assumes "n \<le> 24"
  shows "unat (ucast (signed_drop_bit n (v :: cint)) :: Byte) = unat v div 2 ^ n mod 256"
proof -
  have "unat (ucast (drop_bit n v) :: Byte) = take_bit LENGTH(8) (unat (drop_bit n v))"
    by (rule unsigned_ucast_eq)
  also have "\<dots> = unat (drop_bit n v) mod 256"
    by (simp add: take_bit_eq_mod)
  also have "\<dots> = unat v div 2 ^ n mod 256"
    by (simp only: unat_drop_bit_eq) (simp add: drop_bit_eq_div)
  finally show ?thesis
    unfolding ucast_sdrop [OF assms] .
qed

lemma unat_byte_low: "unat (ucast (v :: cint) :: Byte) = unat v mod 256"
  using unat_byte_of_shift [of 0 v] by simp

lemma bit_128_int: "bit (128 :: int) j \<longleftrightarrow> j = 7"
  using bit_exp_iff [where ?'a = int, of 7 j] by simp

lemma or_80: "(x :: Byte) OR 0x80 = take_bit 7 x + 0x80"
proof -
  have "take_bit 7 x + 0x80 = take_bit 7 x OR 0x80"
    by (rule disjunctive_add_eq_or) (rule bit_word_eqI, auto simp add: bit_simps dest: bit_128_D)
  also have "\<dots> = x OR 0x80"
    by (rule bit_word_eqI) (auto simp add: bit_simps bit_128_int)
  finally show ?thesis by simp
qed

lemma unat_or_80: "unat ((x :: Byte) OR 0x80) = 128 + unat x mod 128"
proof -
  have a: "unat (take_bit 7 x) = unat x mod 128"
    by (simp only: unsigned_take_bit_eq) (simp add: take_bit_eq_mod)
  have b: "unat x mod 128 + 128 < 256"
    using mod_less_divisor [of 128 "unat x"] by linarith
  have "unat (take_bit 7 x + 0x80) = (unat (take_bit 7 x) + unat (0x80 :: Byte)) mod 2 ^ LENGTH(8)"
    by (rule unat_word_ariths(1))
  also have "\<dots> = (unat x mod 128 + 128) mod 256"
    unfolding a by simp
  also have "\<dots> = 128 + unat x mod 128"
    using b by simp
  finally show ?thesis
    unfolding or_80 .
qed

lemma unat_top_byte:
  "unat (ucast (signed_drop_bit 24 (v :: cint) OR 0x80) :: Byte) = 128 + unat v div 2 ^ 24 mod 128"
proof -
  have "(ucast (signed_drop_bit 24 v OR 0x80) :: Byte) = ucast (signed_drop_bit 24 v) OR 0x80"
    by (rule bit_word_eqI) (auto simp add: bit_simps dest: bit_128_D)
  then have "unat (ucast (signed_drop_bit 24 v OR 0x80) :: Byte)
      = 128 + unat (ucast (signed_drop_bit 24 v) :: Byte) mod 128"
    by (simp add: unat_or_80)
  also have "\<dots> = 128 + unat v div 2 ^ 24 mod 256 mod 128"
    by (simp add: unat_byte_of_shift)
  also have "\<dots> = 128 + unat v div 2 ^ 24 mod 128"
    by (simp add: mod_mod_cancel)
  finally show ?thesis .
qed


lemma role_new: "role (new_FcgiRequestBeginBody st r ka) = take_bit 16 r"
  by (simp add: role_def new_FcgiRequestBeginBody_def split_combine_16)

lemma keep_alive_new: "keep_alive (new_FcgiRequestBeginBody st r ka) = ka"
  by (simp add: keep_alive_def new_FcgiRequestBeginBody_def kFcgiKeepAlive_def)

lemma FcgiRole_val_16: "take_bit 16 (FcgiRole_val r) = FcgiRole_val r"
  by (cases r) simp_all

text \<open>
  The four bytes \<^verbatim>\<open>FcgiParams\<close> stores for a non-negative length decode to that length:
  bit by bit, each byte covers its own eight positions, and position 31, the only one the
  forced \<^verbatim>\<open>0x80\<close> touches, is 0 in a non-negative \<^verbatim>\<open>int\<close>.
\<close>

lemma decode_long_length_bytes:
  assumes "0 \<le> sint (n :: cint)"
  shows "decode_long_length (ucast (signed_drop_bit 24 n OR 0x80)) (ucast (signed_drop_bit 16 n))
           (ucast (signed_drop_bit 8 n)) (ucast n) = n"
  unfolding decode_long_length_def and_7f
proof (rule bit_word_eqI)
  fix k :: nat
  assume "k < LENGTH(32)"
  then consider "k < 8" | "8 \<le> k" "k < 16" | "16 \<le> k" "k < 24" | "24 \<le> k" "k < 31" | "k = 31"
    by fastforce
  then show "bit (push_bit 24 (ucast (take_bit 7 (ucast (signed_drop_bit 24 n OR 0x80) :: Byte)))
       OR push_bit 16 (ucast (ucast (signed_drop_bit 16 n) :: Byte))
       OR push_bit 8 (ucast (ucast (signed_drop_bit 8 n) :: Byte))
       OR ucast (ucast n :: Byte) :: cint) k
     \<longleftrightarrow> bit n k"
  proof cases
    case 1
    then show ?thesis by (auto simp add: bit_simps)
  next
    case 2
    then show ?thesis by (auto simp add: bit_simps)
  next
    case 3
    then show ?thesis by (auto simp add: bit_simps)
  next
    case 4
    then show ?thesis by (auto simp add: bit_simps dest: bit_128_D)
  next
    case 5
    then show ?thesis using not_bit31 [OF assms] by (simp add: bit_simps)
  qed
qed

section \<open>The header codec\<close>

text \<open>
  Claim C2. For every 16-bit unsigned value \<open>v\<close>, storing it as request id (as content
  length) through the two-byte big-endian split and reading it back through the accessor
  gives \<open>v\<close> again. This holds for the setters and for the constructor. The accessor adds
  the shifted high byte and the low byte, which is their bitwise or \<^verbatim>\<open>(hi << 8) | lo\<close>.
\<close>

theorem header_16_bit_round_trip:
  fixes v :: "16 word"
  shows "request_id (set_request_id h (ucast v)) = ucast v
       \<and> content_length (set_content_length h (ucast v)) = ucast v
       \<and> request_id (new_FcgiHeader t c (ucast v) p) = ucast v
       \<and> content_length (new_FcgiHeader t (ucast v) r p) = ucast v
       \<and> request_id h = push_bit 8 (ucast (request_id1 h)) OR ucast (request_id0 h)
       \<and> content_length h = push_bit 8 (ucast (content_length1 h)) OR ucast (content_length0 h)"
  by (simp add: request_id_set content_length_set request_id_new content_length_new
      take_bit_16_ucast)
    (simp add: request_id_def content_length_def hi_lo_add_or)

text \<open>
  Claim C3. For every \<^verbatim>\<open>int\<close> above 65535, what is read back after storing it as request
  id or content length is the input modulo \<open>2 ^ 16\<close>, and differs from the input: the high
  bits are dropped. The setters and the constructor are total and return a header, never
  an error.
\<close>

theorem header_truncates_beyond_16_bits:
  assumes "65535 < sint v"
  shows "sint (request_id (set_request_id h v)) = sint v mod 65536
       \<and> sint (content_length (set_content_length h v)) = sint v mod 65536
       \<and> sint (request_id (new_FcgiHeader t c v p)) = sint v mod 65536
       \<and> sint (content_length (new_FcgiHeader t v r p)) = sint v mod 65536
       \<and> request_id (set_request_id h v) \<noteq> v
       \<and> content_length (set_content_length h v) \<noteq> v"
proof -
  from assms have "0 \<le> sint v" by simp
  then have "sint v = uint v" by (rule sint_nonneg_uint)
  then show ?thesis
    using gt_65535_neq [OF assms]
    by (simp add: request_id_set content_length_set request_id_new content_length_new
        sint_take_bit_16)
qed

theorem header_truncates_beyond_16_bits_witness:
  "65535 < sint (65541 :: cint)
   \<and> sint (request_id (set_request_id (new_FcgiHeader kTypeParams 0 1 0) 65541)) = 5
   \<and> sint (content_length (set_content_length (new_FcgiHeader kTypeParams 0 1 0) 65541)) = 5
   \<and> sint (request_id (new_FcgiHeader kTypeParams 0 65541 0)) = 5
   \<and> sint (content_length (new_FcgiHeader kTypeParams 65541 1 0)) = 5"
  using header_truncates_beyond_16_bits
    [of 65541 "new_FcgiHeader kTypeParams 0 1 0" kTypeParams 0 0 1]
  by simp

text \<open>
  Claim C4. A header built with type begin-request, content length 8, request id 1 and
  the default padding is the eight bytes \<^verbatim>\<open>01 01 00 01 00 08 00 00\<close>, whether the defaulted
  arguments are written or left out. The version byte of every constructed header is 1 and
  its reserved byte is 0.
\<close>

theorem begin_request_header_bytes:
  "FcgiHeader_bytes (new_FcgiHeader kTypeBegin 8 1 0)
     = [0x01, 0x01, 0x00, 0x01, 0x00, 0x08, 0x00, 0x00]
   \<and> FcgiHeader_bytes (new_FcgiHeader3 kTypeBegin 8 1)
     = [0x01, 0x01, 0x00, 0x01, 0x00, 0x08, 0x00, 0x00]
   \<and> FcgiHeader_bytes (new_FcgiHeader2 kTypeBegin 8)
     = [0x01, 0x01, 0x00, 0x01, 0x00, 0x08, 0x00, 0x00]
   \<and> version (new_FcgiHeader t c r p) = 1
   \<and> hreserved (new_FcgiHeader t c r p) = 0"
  by (simp add: FcgiHeader_bytes_def new_FcgiHeader_def new_FcgiHeader3_def new_FcgiHeader2_def
      kFcgiVersion_def)

section \<open>The params codec\<close>

text \<open>
  Claim C6. For every name length and value length the params codec gives eight bytes,
  four per length, most significant first: read unsigned, the last three bytes of a group
  are the base-256 digits of the length at positions 2, 1 and 0, and the first byte is
  128 plus the low seven bits of the digit at position 3. So bit 7 of the first byte of
  each group is set whatever the lengths, and the other 31 bits of the group are the low 31
  bits of the length. \<^verbatim>\<open>set_name_length\<close> writes the same four name bytes and leaves the
  value bytes. For the lengths 1 and 1 the bytes are \<^verbatim>\<open>80 00 00 01 80 00 00 01\<close>.
\<close>

theorem params_prefix_long_form:
  "length (FcgiParams_bytes (new_FcgiParams nlen vlen)) = 8
   \<and> bit (FcgiParams_bytes (new_FcgiParams nlen vlen) ! 0) 7
   \<and> bit (FcgiParams_bytes (new_FcgiParams nlen vlen) ! 4) 7
   \<and> bit (name_length3 (set_name_length p nlen)) 7
   \<and> FcgiParams_bytes (new_FcgiParams 1 1) = [0x80, 0x00, 0x00, 0x01, 0x80, 0x00, 0x00, 0x01]
   \<and> unat (FcgiParams_bytes (new_FcgiParams nlen vlen) ! 0) = 128 + unat nlen div 16777216 mod 128
   \<and> unat (FcgiParams_bytes (new_FcgiParams nlen vlen) ! 1) = unat nlen div 65536 mod 256
   \<and> unat (FcgiParams_bytes (new_FcgiParams nlen vlen) ! 2) = unat nlen div 256 mod 256
   \<and> unat (FcgiParams_bytes (new_FcgiParams nlen vlen) ! 3) = unat nlen mod 256
   \<and> unat (FcgiParams_bytes (new_FcgiParams nlen vlen) ! 4) = 128 + unat vlen div 16777216 mod 128
   \<and> unat (FcgiParams_bytes (new_FcgiParams nlen vlen) ! 5) = unat vlen div 65536 mod 256
   \<and> unat (FcgiParams_bytes (new_FcgiParams nlen vlen) ! 6) = unat vlen div 256 mod 256
   \<and> unat (FcgiParams_bytes (new_FcgiParams nlen vlen) ! 7) = unat vlen mod 256
   \<and> take 4 (FcgiParams_bytes (set_name_length p nlen))
       = take 4 (FcgiParams_bytes (new_FcgiParams nlen vlen))
   \<and> drop 4 (FcgiParams_bytes (set_name_length p nlen)) = drop 4 (FcgiParams_bytes p)"
  using unat_top_byte [of nlen] unat_top_byte [of vlen]
    unat_byte_of_shift [of 16 nlen] unat_byte_of_shift [of 16 vlen]
    unat_byte_of_shift [of 8 nlen] unat_byte_of_shift [of 8 vlen]
    unat_byte_low [of nlen] unat_byte_low [of vlen]
  by (simp add: FcgiParams_bytes_def new_FcgiParams_def set_name_length_def bit_simps)

text \<open>
  Claim C10. For every name length and value length from 0 up to \<open>2 ^ 31 - 1\<close> (the
  non-negative \<^verbatim>\<open>int\<close>s), decoding the eight bytes the codec emits, with the top bit of each
  leading byte cleared and the four bytes of each group recombined big-endian, gives the
  two lengths back.
\<close>

theorem params_prefix_lengths_recoverable:
  assumes "0 \<le> sint nlen" and "0 \<le> sint vlen"
  shows "decode_params_prefix (FcgiParams_bytes (new_FcgiParams nlen vlen)) = Some (nlen, vlen)"
  using assms
  by (simp add: FcgiParams_bytes_def new_FcgiParams_def decode_long_length_bytes)

theorem params_prefix_lengths_recoverable_witness:
  "0 \<le> sint (300 :: cint) \<and> 0 \<le> sint (70000 :: cint)
   \<and> FcgiParams_bytes (new_FcgiParams 300 70000)
     = [0x80, 0x00, 0x01, 0x2c, 0x80, 0x01, 0x11, 0x70]
   \<and> decode_params_prefix [0x80, 0x00, 0x01, 0x2c, 0x80, 0x01, 0x11, 0x70] = Some (300, 70000)"
  using params_prefix_lengths_recoverable [of 300 70000]
  by (simp add: FcgiParams_bytes_def new_FcgiParams_def decode_long_length_def)

section \<open>The begin-request body\<close>

text \<open>
  Claim C5. The constructor \<^verbatim>\<open>FcgiRequestBeginBody(role, keep_alive)\<close> writes the role
  big-endian into the first two bytes and the keep-alive flag into the third, and leaves
  the five reserved bytes as the storage held them. Built with role 1 and keep-alive true
  in storage filled with \<^verbatim>\<open>aa\<close>, the object is \<^verbatim>\<open>00 01 01 aa aa aa aa aa\<close>, not
  \<^verbatim>\<open>00 01 01 00 00 00 00 00\<close>.
\<close>

theorem begin_request_body_keeps_stale_reserved_bytes:
  "reserved (new_FcgiRequestBeginBody st r ka) = reserved st
   \<and> FcgiRequestBeginBody_bytes
       (new_FcgiRequestBeginBody
          \<lparr> role1 = 0xaa, role0 = 0xaa, flags = 0xaa,
            reserved = (0xaa, 0xaa, 0xaa, 0xaa, 0xaa) \<rparr> 1 True)
     = [0x00, 0x01, 0x01, 0xaa, 0xaa, 0xaa, 0xaa, 0xaa]"
  by (simp add: FcgiRequestBeginBody_bytes_def new_FcgiRequestBeginBody_def)

text \<open>In storage that was zero before, the object is the sequence the protocol asks for.\<close>

lemma begin_request_body_in_zeroed_storage:
  "FcgiRequestBeginBody_bytes
     (new_FcgiRequestBeginBody
        \<lparr> role1 = 0, role0 = 0, flags = 0, reserved = (0, 0, 0, 0, 0) \<rparr> 1 True)
   = [0x00, 0x01, 0x01, 0x00, 0x00, 0x00, 0x00, 0x00]"
  by (simp add: FcgiRequestBeginBody_bytes_def new_FcgiRequestBeginBody_def)

section \<open>The record builder\<close>

text \<open>
  Claim C7. For every role, keep-alive flag and request id, \<^verbatim>\<open>startParams\<close> makes exactly
  one call, a \<^verbatim>\<open>send\<close> on the manager's descriptor with flags 0 and a buffer of 16 bytes.
  The first 8 are the begin-request header: version 1, type 1, the request id in two bytes
  big-endian, content length 0 and 8, padding 0, reserved 0. The last 8 are the
  begin-request body: the role in two bytes big-endian (0, then 1, 2 or 3), the flags byte
  1 for keep-alive and 0 otherwise, then the five reserved bytes, which are those of the
  storage. Read back, the body's role and keep-alive flag are the arguments. The function
  returns what that \<^verbatim>\<open>send\<close> returned, the count of bytes written or the negative error.
\<close>

theorem startParams_one_write_of_16_bytes:
  "(let hd = FcgiHeader_bytes (new_FcgiHeader kTypeBegin 8 rid 0);
        bd = FcgiRequestBeginBody_bytes (new_FcgiRequestBeginBody st (FcgiRole_val r) ka);
        ev = Send (fcgifd_member m) (hd @ bd) 0
    in length (hd @ bd) = 16 \<and> length hd = 8 \<and> length bd = 8
       \<and> type (new_FcgiHeader kTypeBegin 8 rid 0) = 1
       \<and> content_length (new_FcgiHeader kTypeBegin 8 rid 0) = 8
       \<and> startParams os m st r ka rid tr = (os tr ev, tr @ [(ev, os tr ev)])
       \<and> hd ! 0 = 1 \<and> hd ! 1 = 1
       \<and> unat (hd ! 2) = unat rid div 256 mod 256 \<and> unat (hd ! 3) = unat rid mod 256
       \<and> hd ! 4 = 0 \<and> hd ! 5 = 8 \<and> hd ! 6 = 0 \<and> hd ! 7 = 0
       \<and> bd ! 0 = 0
       \<and> bd ! 1 = (case r of kRoleResponder \<Rightarrow> 1 | kRoleAuthorizer \<Rightarrow> 2 | kRoleFilter \<Rightarrow> 3)
       \<and> bd ! 2 = (if ka then 1 else 0)
       \<and> drop 3 bd = drop 3 (FcgiRequestBeginBody_bytes st)
       \<and> role (new_FcgiRequestBeginBody st (FcgiRole_val r) ka) = FcgiRole_val r
       \<and> keep_alive (new_FcgiRequestBeginBody st (FcgiRole_val r) ka) = ka)"
proof -
  have hi: "(ucast (signed_drop_bit 8 rid AND 0xff) :: Byte) = ucast (signed_drop_bit 8 rid)"
    unfolding and_ff by (rule bit_word_eqI) (auto simp add: bit_simps)
  have lo: "(ucast (rid AND 0xff) :: Byte) = ucast rid"
    unfolding and_ff by (rule bit_word_eqI) (auto simp add: bit_simps)
  have rb: "(ucast (signed_drop_bit 8 (FcgiRole_val r) AND 0xff) :: Byte) = 0
      \<and> (ucast (FcgiRole_val r AND 0xff) :: Byte)
          = (case r of kRoleResponder \<Rightarrow> 1 | kRoleAuthorizer \<Rightarrow> 2 | kRoleFilter \<Rightarrow> 3)"
    by (cases r) simp_all
  show ?thesis
    using unat_byte_of_shift [of 8 rid] unat_byte_low [of rid] rb
    by (simp add: Let_def startParams_def doWrite_def call_def FcgiRequestBegin_bytes_def
        new_FcgiHeader3_def sizeof_FcgiRequestBeginBody_def FcgiHeader_bytes_def
        FcgiRequestBeginBody_bytes_def content_length_new role_new keep_alive_new
        FcgiRole_val_16 split: prod.split)
      (simp add: new_FcgiHeader_def new_FcgiRequestBeginBody_def kFcgiVersion_def hi lo)
qed

text \<open>
  Claim C8. For every request id, \<^verbatim>\<open>endParams\<close> makes exactly one call, a \<^verbatim>\<open>send\<close> of the
  8 bytes of a header whose type byte is params (4) and whose two content-length bytes
  are 0, and returns what that \<^verbatim>\<open>send\<close> returned.
\<close>

theorem endParams_writes_empty_params_header:
  "(let buf = FcgiHeader_bytes (new_FcgiHeader kTypeParams 0 requestID 0);
        ev = Send (fcgifd_member m) buf 0
    in length buf = 8 \<and> buf ! 1 = 4 \<and> buf ! 4 = 0 \<and> buf ! 5 = 0
       \<and> content_length (new_FcgiHeader kTypeParams 0 requestID 0) = 0
       \<and> endParams os m requestID tr = (os tr ev, tr @ [(ev, os tr ev)]))"
  by (simp add: Let_def endParams_def doWrite_def call_def new_FcgiHeader3_def
      FcgiHeader_bytes_def content_length_new)
    (simp add: new_FcgiHeader_def)

section \<open>The TCP transport\<close>

lemmas address_defs = valid_dotted_quad_def valid_octet_def is_digit_def decimal_def Let_def

lemmas transport_defs = connect_reconnect_destroy_def new_FcgiManagerINET_def start_INET_def
  closeSocket_def call_def new_FcgiManager_def set_fcgifd_def delete_FcgiManager_def

lemma valid_loopback: "valid_dotted_quad ''127.0.0.1''"
  by (simp add: address_defs)

lemma valid_other: "valid_dotted_quad ''10.0.0.7''"
  by (simp add: address_defs)

lemma invalid_localhost: "\<not> valid_dotted_quad ''localhost''"
  by (simp add: address_defs)

lemma simple_os_rejects_invalid: "rejects_invalid simple_os"
  by (simp add: rejects_invalid_def)

text \<open>
  Claim C9. On an operating system whose \<^verbatim>\<open>inet_pton\<close> rejects what is not a dotted quad,
  for every address text that is not a dotted quad and every port the interface admits
  (\<^verbatim>\<open>start\<close> asserts \<^verbatim>\<open>port >= 0\<close>), \<^verbatim>\<open>FcgiManagerINET::start\<close> returns, and returns -1, a
  negative \<^verbatim>\<open>int\<close>.
\<close>

theorem start_INET_invalid_address_negative:
  assumes "rejects_invalid os" and "\<not> valid_dotted_quad addr" and "0 \<le> sint port"
  shows "\<exists>res m' tr'. start_INET os m addr port tr = Inr (res, m', tr') \<and> res = - 1 \<and> sint res < 0"
proof -
  obtain m1 tr1 where c: "closeSocket os m tr = (m1, tr1)"
    by (cases "closeSocket os m tr")
  from assms(1,2) have "sint (os tr1 (Inet_pton addr)) \<le> 0"
    by (simp add: rejects_invalid_def)
  with assms(3) c show ?thesis
    by (simp add: start_INET_def call_def)
qed

theorem start_INET_invalid_address_negative_witness:
  "rejects_invalid simple_os \<and> \<not> valid_dotted_quad ''localhost'' \<and> 0 \<le> sint (9000 :: cint)
   \<and> start_INET simple_os new_FcgiManager ''localhost'' 9000 []
       = Inr (- 1, new_FcgiManager, [(Inet_pton ''localhost'', 0)])"
proof -
  have p: "0 \<le> sint (9000 :: cint)"
    by simp
  show ?thesis
    using start_INET_invalid_address_negative
      [OF simple_os_rejects_invalid invalid_localhost p, of new_FcgiManager "[]"]
      simple_os_rejects_invalid invalid_localhost
    by (simp add: start_INET_def closeSocket_def call_def new_FcgiManager_def)
qed

text \<open>
  On a valid address \<^verbatim>\<open>start\<close> ends with the \<^verbatim>\<open>connect\<close> call on the stored descriptor
  and returns its result unchanged, also when \<^verbatim>\<open>socket\<close> failed and the descriptor is -1.
\<close>

lemma start_INET_valid_address_returns_connect_result:
  assumes "0 \<le> sint port" and "0 < sint (os (snd (closeSocket os m tr)) (Inet_pton addr))"
  shows "\<exists>fd res m' tr0. start_INET os m addr port tr
             = Inr (res, m', tr0 @ [(Connect fd addr (ucast port), res)])
           \<and> fcgifd_member m' = fd"
proof -
  obtain m1 tr1 where c: "closeSocket os m tr = (m1, tr1)"
    by (cases "closeSocket os m tr")
  with assms show ?thesis
    by (simp add: start_INET_def call_def set_fcgifd_def Let_def)
qed

text \<open>
  With no socket ever opened, \<^verbatim>\<open>closeSocket\<close> makes no call; and a reconnect to a valid
  address stores the new descriptor, so that the destructor closes an open one.
\<close>

lemma closeSocket_without_socket: "closeSocket os new_FcgiManager tr = (new_FcgiManager, tr)"
  by (simp add: closeSocket_def new_FcgiManager_def)

lemma reconnect_to_valid_address_closes_open_only:
  "connect_reconnect_destroy simple_os ''127.0.0.1'' ''10.0.0.7'' 9000
     = Inr [(Inet_pton ''127.0.0.1'', 1), (Socket AF_INET, 3), (Connect 3 ''127.0.0.1'' 9000, 0),
            (Close 3, 0), (Inet_pton ''10.0.0.7'', 1), (Socket AF_INET, 3),
            (Connect 3 ''10.0.0.7'' 9000, 0), (Close 3, 0)]
   \<and> closes_open_only []
        [(Inet_pton ''127.0.0.1'', 1), (Socket AF_INET, 3), (Connect 3 ''127.0.0.1'' 9000, 0),
         (Close 3, 0), (Inet_pton ''10.0.0.7'', 1), (Socket AF_INET, 3),
         (Connect 3 ''10.0.0.7'' 9000, 0), (Close 3, 0)]"
  by (simp add: transport_defs valid_loopback valid_other)

text \<open>
  Claim C1. \<^verbatim>\<open>closeSocket\<close> does not set \<^verbatim>\<open>fcgifd_\<close> back to -1, so a second
  \<^verbatim>\<open>closeSocket\<close> closes the same descriptor number again; and \<^verbatim>\<open>start\<close> returns early on an
  invalid address, after closing the old descriptor and before storing a new one. A
  transport connected to \<^verbatim>\<open>127.0.0.1\<close>, reconnected to \<^verbatim>\<open>localhost\<close> and destroyed calls
  \<^verbatim>\<open>close(3)\<close> twice with no \<^verbatim>\<open>socket\<close> call between: the second \<^verbatim>\<open>close\<close> is on a descriptor
  that is not open.
\<close>

theorem failed_reconnect_closes_descriptor_twice:
  "connect_reconnect_destroy simple_os ''127.0.0.1'' ''localhost'' 9000
     = Inr [(Inet_pton ''127.0.0.1'', 1), (Socket AF_INET, 3), (Connect 3 ''127.0.0.1'' 9000, 0),
            (Close 3, 0), (Inet_pton ''localhost'', 0), (Close 3, - 1)]
   \<and> \<not> closes_open_only []
        [(Inet_pton ''127.0.0.1'', 1), (Socket AF_INET, 3), (Connect 3 ''127.0.0.1'' 9000, 0),
         (Close 3, 0), (Inet_pton ''localhost'', 0), (Close 3, - 1)]
   \<and> snd (closeSocket simple_os \<lparr> fcgifd_member = 3 \<rparr>
          (snd (closeSocket simple_os \<lparr> fcgifd_member = 3 \<rparr> [(Socket AF_INET, 3)])))
     = [(Socket AF_INET, 3), (Close 3, 0), (Close 3, - 1)]"
  by (simp add: transport_defs valid_loopback invalid_localhost)

end
